theory Spec2Isabelle
  imports Main "HOL-Library.AList"
begin

section \<open>JavaScript values\<close>

text \<open>
  Rows, field values and cursors are untyped at run time (\<^verbatim>\<open>rows: any[]\<close>), so they are
  embedded as a datatype of JavaScript values. An object is the ordered list of its own
  properties. Numbers are kept as integers: the code only ever asks for the \<^verbatim>\<open>typeof\<close> and
  the truthiness of a number. Arrays, functions and inherited (prototype) properties are
  not represented.
\<close>

datatype jsval =
    VUndefined
  | VNull
  | VBool bool
  | VNum int
  | VStr string
  | VDate int
  | VObj "(string \<times> jsval) list"

type_synonym obj = "(string \<times> jsval) list"

datatype js_error = TypeError | Error string

fun truthy :: "jsval \<Rightarrow> bool" where
  "truthy VUndefined = False"
| "truthy VNull = False"
| "truthy (VBool b) = b"
| "truthy (VNum n) = (n \<noteq> 0)"
| "truthy (VStr s) = (s \<noteq> [])"
| "truthy (VDate t) = True"
| "truthy (VObj ps) = True"

fun typeof :: "jsval \<Rightarrow> string" where
  "typeof VUndefined = ''undefined''"
| "typeof VNull = ''object''"
| "typeof (VBool b) = ''boolean''"
| "typeof (VNum n) = ''number''"
| "typeof (VStr s) = ''string''"
| "typeof (VDate t) = ''object''"
| "typeof (VObj ps) = ''object''"

fun instanceof_Date :: "jsval \<Rightarrow> bool" where
  "instanceof_Date (VDate t) = True"
| "instanceof_Date v = False"

text \<open>\<^verbatim>\<open>o.k\<close> on an object literal: the own property, or \<^verbatim>\<open>undefined\<close>.\<close>

definition get_own :: "obj \<Rightarrow> string \<Rightarrow> jsval" where
  "get_own ps k = (case map_of ps k of Some v \<Rightarrow> v | None \<Rightarrow> VUndefined)"

text \<open>Decimal digits of an index, for the own keys of a string.\<close>

fun digits :: "nat \<Rightarrow> string" where
  "digits n =
     (if n < 10 then [char_of (48 + n)]
      else digits (n div 10) @ [char_of (48 + n mod 10)])"

declare digits.simps [simp del]

definition string_props :: "string \<Rightarrow> obj" where
  "string_props s = map (\<lambda>i. (digits i, VStr [s ! i])) [0 ..< length s]"

text \<open>
  \<^verbatim>\<open>v[k]\<close> on an arbitrary value: a \<^verbatim>\<open>TypeError\<close> on \<^verbatim>\<open>undefined\<close> and \<^verbatim>\<open>null\<close>, the own
  property on an object, the length or an indexed character on a string, and
  \<^verbatim>\<open>undefined\<close> on the other primitives.
\<close>

fun get_member :: "jsval \<Rightarrow> string \<Rightarrow> js_error + jsval" where
  "get_member VUndefined k = Inl TypeError"
| "get_member VNull k = Inl TypeError"
| "get_member (VObj ps) k = Inr (get_own ps k)"
| "get_member (VStr s) k =
     Inr (if k = ''length'' then VNum (int (length s)) else get_own (string_props s) k)"
| "get_member v k = Inr VUndefined"

text \<open>\<^verbatim>\<open>{...v}\<close>: the own enumerable properties of \<^verbatim>\<open>v\<close>.\<close>

fun spread :: "jsval \<Rightarrow> obj" where
  "spread (VObj ps) = ps"
| "spread (VStr s) = string_props s"
| "spread v = []"

text \<open>\<^verbatim>\<open>{...o, [k]: v}\<close>: an existing key keeps its place, a new key goes last.\<close>

definition spread_with :: "obj \<Rightarrow> string \<Rightarrow> jsval \<Rightarrow> obj" where
  "spread_with ps k v = AList.update k v ps"

section \<open>Mock data registry\<close>

record field =
  field_id :: string
  field_name :: string

record model =
  model_id :: string
  model_name :: string
  model_fields :: "field list"

definition genericContact :: model where
  "genericContact =
     \<lparr> model_id = ''genericContact'', model_name = ''Contact'',
       model_fields =
         [ \<lparr> field_id = ''firstName'', field_name = ''First Name'' \<rparr>,
           \<lparr> field_id = ''lastName'', field_name = ''Last Name'' \<rparr>,
           \<lparr> field_id = ''email'', field_name = ''Email'' \<rparr>,
           \<lparr> field_id = ''fld_journeybee_lead__c'', field_name = ''Journeybee Lead'' \<rparr>,
           \<lparr> field_id = ''fld_journeybee_partner__c'', field_name = ''Journeybee Partner'' \<rparr> ] \<rparr>"

definition genericCompany :: model where
  "genericCompany =
     \<lparr> model_id = ''genericCompany'', model_name = ''Company'',
       model_fields =
         [ \<lparr> field_id = ''name'', field_name = ''Name'' \<rparr>,
           \<lparr> field_id = ''fld_journeybee_lead__c'', field_name = ''Journeybee Lead'' \<rparr>,
           \<lparr> field_id = ''fld_journeybee_partner__c'', field_name = ''Journeybee Partner'' \<rparr> ] \<rparr>"

definition crmOpportunity :: model where
  "crmOpportunity =
     \<lparr> model_id = ''crmOpportunity'', model_name = ''Opportunity'',
       model_fields =
         [ \<lparr> field_id = ''name'', field_name = ''Name'' \<rparr>,
           \<lparr> field_id = ''amount'', field_name = ''Amount'' \<rparr>,
           \<lparr> field_id = ''stage'', field_name = ''Stage'' \<rparr>,
           \<lparr> field_id = ''pipeline'', field_name = ''Pipeline'' \<rparr>,
           \<lparr> field_id = ''fld_journeybee_lead__c'', field_name = ''Journeybee Lead'' \<rparr>,
           \<lparr> field_id = ''fld_journeybee_partner__c'', field_name = ''Journeybee Partner'' \<rparr> ] \<rparr>"

definition MODELS :: "model list" where
  "MODELS = [genericContact, genericCompany, crmOpportunity]"

definition DEMO_OWNER_ID :: string where
  "DEMO_OWNER_ID = ''demo_owner_id''"

text \<open>\<^verbatim>\<open>mocked.models.get\<close>: the first model with the identifier, or \<^verbatim>\<open>undefined\<close>.\<close>

definition models_get :: "string \<Rightarrow> model option" where
  "models_get mid = find (\<lambda>m. model_id m = mid) MODELS"

definition getUserOrOrgId :: string where
  "getUserOrOrgId = DEMO_OWNER_ID"

section \<open>The hosted resource API, as seen by its callers\<close>

record list_request =
  req_fields :: "string list"
  req_limit :: nat
  req_q :: "string option"
  req_cursor :: jsval

text \<open>
  The destructured result \<^verbatim>\<open>{ data, error, next }\<close> of \<^verbatim>\<open>resources.list\<close>. On a result
  without error the service contract makes \<^verbatim>\<open>data\<close> an array of objects.
\<close>

record list_response =
  resp_data :: "obj list"
  resp_error :: "string option"
  resp_next :: jsval

datatype 'a outcome = Throws js_error | Returns 'a

record toast =
  title :: string
  description :: string
  destructive :: bool

section \<open>Client resource table\<close>

datatype cell_type = TText | TNumber | TDate | TSelect | TBoolean | TEmail | TUrl | TPhone

record column =
  col_id :: string
  header :: string
  col_type :: cell_type

record table_state =
  search :: string
  debouncedSearch :: string
  rows :: "obj list"
  cursor :: jsval
  hasMore :: bool
  loading :: bool
  loadingMore :: bool
  initialLoad :: bool

text \<open>The \<^verbatim>\<open>useState\<close> initial values.\<close>

definition initial_state :: table_state where
  "initial_state =
     \<lparr> search = [], debouncedSearch = [], rows = [], cursor = VUndefined,
       hasMore = True, loading = False, loadingMore = False, initialLoad = True \<rparr>"

text \<open>
  \<^verbatim>\<open>allColumns\<close> is a plain \<^verbatim>\<open>const\<close> of the component body: every render builds it anew
  from the model's field list, each column with the type \<^verbatim>\<open>"text"\<close>.
\<close>

definition allColumns :: "model \<Rightarrow> column list" where
  "allColumns modelDetails =
     map (\<lambda>f. \<lparr> col_id = field_id f, header = field_name f, col_type = TText \<rparr>)
       (model_fields modelDetails)"

definition getColumnWidth :: "string \<Rightarrow> nat" where
  "getColumnWidth h = min (max (length h * 8 + 32) 120) 300"

text \<open>
  What the memoised \<^verbatim>\<open>loadResources\<close> callback has captured: the variables of the render
  that created it. \<^verbatim>\<open>useCallback\<close> keeps the callback of an earlier render while its
  dependencies \<^verbatim>\<open>[debouncedSearch, toast]\<close> are unchanged (\<^verbatim>\<open>toast\<close> is a stable module
  function), so \<^verbatim>\<open>cursor\<close> and \<^verbatim>\<open>allColumns\<close> are those of that earlier render.
\<close>

record closure =
  cl_model :: model
  cl_sessionToken :: string
  cl_debouncedSearch :: string
  cl_cursor :: jsval
  cl_columns :: "column list"

definition new_closure :: "model \<Rightarrow> string \<Rightarrow> table_state \<Rightarrow> closure" where
  "new_closure modelDetails sessionToken s =
     \<lparr> cl_model = modelDetails, cl_sessionToken = sessionToken,
       cl_debouncedSearch = debouncedSearch s, cl_cursor = cursor s,
       cl_columns = allColumns modelDetails \<rparr>"

definition useCallback_loadResources ::
  "closure option \<Rightarrow> model \<Rightarrow> string \<Rightarrow> table_state \<Rightarrow> closure" where
  "useCallback_loadResources prev modelDetails sessionToken s =
     (case prev of
        None \<Rightarrow> new_closure modelDetails sessionToken s
      | Some cl \<Rightarrow>
          if cl_debouncedSearch cl = debouncedSearch s then cl
          else new_closure modelDetails sessionToken s)"

text \<open>
  \<^verbatim>\<open>loadResources\<close> up to its \<^verbatim>\<open>await\<close>: the loading flag is raised and the list request
  is issued.
\<close>

definition loadResources_begin ::
  "closure \<Rightarrow> bool \<Rightarrow> table_state \<Rightarrow> table_state \<times> list_request" where
  "loadResources_begin cl isLoadMore s =
     (let currentCursor = (if isLoadMore then cl_cursor cl else VUndefined);
          s1 = (if isLoadMore then s\<lparr>loadingMore := True\<rparr> else s\<lparr>loading := True\<rparr>);
          fields = map field_id (model_fields (cl_model cl))
      in (s1,
          \<lparr> req_fields = fields, req_limit = 20,
            req_q = (if length (cl_debouncedSearch cl) > 0
                     then Some (cl_debouncedSearch cl) else None),
            req_cursor = currentCursor \<rparr>))"

text \<open>
  \<^verbatim>\<open>forEach\<close> with a callback that may throw: the state reached so far is kept (the
  callback mutates objects in place) and the iteration stops at the first throw.
\<close>

fun forEach :: "('a \<Rightarrow> 's \<Rightarrow> 's \<times> js_error option) \<Rightarrow> 'a list \<Rightarrow> 's \<Rightarrow> 's \<times> js_error option" where
  "forEach f [] s = (s, None)"
| "forEach f (x # xs) s =
     (case f x s of
        (s', Some e) \<Rightarrow> (s', Some e)
      | (s', None) \<Rightarrow> forEach f xs s')"

text \<open>
  The type test of the inference. \<^verbatim>\<open>Date.parse\<close> belongs to the platform; \<open>parses s\<close>
  stands for \<^verbatim>\<open>!isNaN(Date.parse(s))\<close>.
\<close>

definition infer_type :: "(string \<Rightarrow> bool) \<Rightarrow> jsval \<Rightarrow> cell_type option" where
  "infer_type parses v =
     (if typeof v = ''number'' then Some TNumber
      else if typeof v = ''boolean'' then Some TBoolean
      else if instanceof_Date v \<or>
              (typeof v = ''string'' \<and> (case v of VStr s \<Rightarrow> parses s | _ \<Rightarrow> False))
      then Some TDate
      else None)"

text \<open>\<^verbatim>\<open>allColumns.find(...)\<close> followed by the assignment to \<^verbatim>\<open>column.type\<close>.\<close>

fun set_column_type :: "string \<Rightarrow> cell_type \<Rightarrow> column list \<Rightarrow> column list" where
  "set_column_type fid t [] = []"
| "set_column_type fid t (c # cs) =
     (if col_id c = fid then c\<lparr>col_type := t\<rparr> # cs else c # set_column_type fid t cs)"

definition infer_field ::
  "(string \<Rightarrow> bool) \<Rightarrow> obj \<Rightarrow> field \<Rightarrow> column list \<Rightarrow> column list \<times> js_error option" where
  "infer_field parses item f cols =
     (case get_member (get_own item ''fields'') (field_id f) of
        Inl e \<Rightarrow> (cols, Some e)
      | Inr v \<Rightarrow>
          (if v \<noteq> VUndefined
           then (case infer_type parses v of
                   Some t \<Rightarrow> (set_column_type (field_id f) t cols, None)
                 | None \<Rightarrow> (cols, None))
           else (cols, None)))"

definition infer_columns ::
  "(string \<Rightarrow> bool) \<Rightarrow> model \<Rightarrow> obj list \<Rightarrow> column list \<Rightarrow> column list \<times> js_error option" where
  "infer_columns parses modelDetails data cols =
     forEach (\<lambda>item. forEach (infer_field parses item) (model_fields modelDetails)) data cols"

definition loading_error_toast :: toast where
  "loading_error_toast =
     \<lparr> title = ''Error loading resources'',
       description = ''Failed to load resources. Please try again.'',
       destructive = True \<rparr>"

text \<open>The \<^verbatim>\<open>finally\<close> block.\<close>

definition load_finally :: "table_state \<Rightarrow> table_state" where
  "load_finally s = s\<lparr>loading := False, loadingMore := False, initialLoad := False\<rparr>"

text \<open>
  \<^verbatim>\<open>loadResources\<close> after its \<^verbatim>\<open>await\<close>, on the state as it is when the response
  arrives. The result is the new state, the closure with its (mutated) column array, and
  the notifications shown.
\<close>

definition loadResources_end ::
  "(string \<Rightarrow> bool) \<Rightarrow> closure \<Rightarrow> bool \<Rightarrow> list_response outcome \<Rightarrow> table_state
     \<Rightarrow> table_state \<times> closure \<times> toast list" where
  "loadResources_end parses cl isLoadMore out s =
     (case out of
        Throws e \<Rightarrow> (load_finally s, cl, [loading_error_toast])
      | Returns r \<Rightarrow>
          (if resp_error r \<noteq> None then (load_finally s, cl, [loading_error_toast])
           else
             (case infer_columns parses (cl_model cl) (resp_data r) (cl_columns cl) of
                (cols, Some e) \<Rightarrow>
                  (load_finally s, cl\<lparr>cl_columns := cols\<rparr>, [loading_error_toast])
              | (cols, None) \<Rightarrow>
                  (let s1 = (if isLoadMore then s\<lparr>rows := rows s @ resp_data r\<rparr>
                             else s\<lparr>rows := resp_data r\<rparr>);
                       s2 = s1\<lparr>cursor := (if truthy (resp_next r) then resp_next r
                                           else VUndefined)\<rparr>;
                       s3 = s2\<lparr>hasMore := (resp_next r \<noteq> VNull)\<rparr>
                   in (load_finally s3, cl\<lparr>cl_columns := cols\<rparr>, [])))))"

text \<open>
  A list fetch is successful when the call returns a result without error and every
  record of the batch carries a \<^verbatim>\<open>fields\<close> mapping to read from.
\<close>

definition has_fields :: "obj \<Rightarrow> bool" where
  "has_fields item = (get_own item ''fields'' \<noteq> VUndefined \<and> get_own item ''fields'' \<noteq> VNull)"

definition successful :: "list_response outcome \<Rightarrow> bool" where
  "successful out =
     (case out of
        Throws e \<Rightarrow> False
      | Returns r \<Rightarrow> resp_error r = None \<and> list_all has_fields (resp_data r))"

text \<open>The effect that runs when the session token or the debounced search changes.\<close>

definition load_effect ::
  "closure \<Rightarrow> string \<Rightarrow> table_state \<Rightarrow> table_state \<times> list_request option" where
  "load_effect cl sessionToken s =
     (if sessionToken \<noteq> []
      then (let s1 = s\<lparr>rows := [], cursor := VUndefined, hasMore := True\<rparr>;
                (s2, req) = loadResources_begin cl False s1
            in (s2, Some req))
      else (s, None))"

definition handleLoadMore ::
  "closure \<Rightarrow> table_state \<Rightarrow> (table_state \<times> list_request) option" where
  "handleLoadMore cl s =
     (if hasMore s \<and> \<not> loadingMore s then Some (loadResources_begin cl True s) else None)"

subsection \<open>Cell update\<close>

record update_request =
  upd_id :: string
  upd_patch :: obj

text \<open>The first \<^verbatim>\<open>setRows\<close>: \<^verbatim>\<open>{ ...row, [columnId]: value }\<close> on the rows with the identifier.\<close>

definition optimistic_update :: "string \<Rightarrow> string \<Rightarrow> jsval \<Rightarrow> obj list \<Rightarrow> obj list" where
  "optimistic_update rowId columnId v prev =
     map (\<lambda>row. if get_own row ''id'' = VStr rowId then spread_with row columnId v else row) prev"

text \<open>
  The second \<^verbatim>\<open>setRows\<close>:
  \<^verbatim>\<open>{ ...row, fields: { ...row.fields, [columnId]: value } }\<close>.
\<close>

definition confirmed_update :: "string \<Rightarrow> string \<Rightarrow> jsval \<Rightarrow> obj list \<Rightarrow> obj list" where
  "confirmed_update rowId columnId v prev =
     map (\<lambda>row. if get_own row ''id'' = VStr rowId
                then spread_with row ''fields''
                       (VObj (spread_with (spread (get_own row ''fields'')) columnId v))
                else row) prev"

definition error_updating_toast :: toast where
  "error_updating_toast =
     \<lparr> title = ''Error updating resource'',
       description = ''Failed to update the value. Please try again.'',
       destructive = True \<rparr>"

definition value_updated_toast :: "string \<Rightarrow> string \<Rightarrow> toast" where
  "value_updated_toast columnId rowId =
     \<lparr> title = ''Value updated'',
       description = ''Updated '' @ columnId @ '' for record '' @ take 8 rowId @ ''...'',
       destructive = False \<rparr>"

definition update_failed_toast :: toast where
  "update_failed_toast =
     \<lparr> title = ''Update failed'',
       description = ''Failed to update the value. Please try again.'',
       destructive = True \<rparr>"

text \<open>\<^verbatim>\<open>handleCellUpdate\<close> up to its \<^verbatim>\<open>await\<close>.\<close>

definition handleCellUpdate_begin ::
  "string \<Rightarrow> string \<Rightarrow> jsval \<Rightarrow> table_state \<Rightarrow> table_state \<times> update_request" where
  "handleCellUpdate_begin rowId columnId v s =
     (s\<lparr>rows := optimistic_update rowId columnId v (rows s)\<rparr>,
      \<lparr> upd_id = rowId, upd_patch = [(columnId, v)] \<rparr>)"

text \<open>
  \<^verbatim>\<open>handleCellUpdate\<close> after its \<^verbatim>\<open>await\<close>. The outcome of \<^verbatim>\<open>resources.update\<close> is a
  throw or a result whose \<^verbatim>\<open>error\<close> is set or not. The third component is the list
  request of the reload, when \<^verbatim>\<open>loadResources()\<close> is called.
\<close>

definition handleCellUpdate_end ::
  "closure \<Rightarrow> string \<Rightarrow> string \<Rightarrow> jsval \<Rightarrow> string option outcome \<Rightarrow> table_state
     \<Rightarrow> table_state \<times> toast list \<times> list_request option" where
  "handleCellUpdate_end cl rowId columnId v out s =
     (case out of
        Returns err \<Rightarrow>
          (if err \<noteq> None then (s, [error_updating_toast], None)
           else (s\<lparr>rows := confirmed_update rowId columnId v (rows s)\<rparr>,
                 [value_updated_toast columnId rowId], None))
      | Throws e \<Rightarrow>
          (let (s1, req) = loadResources_begin cl False s
           in (s1, [update_failed_toast], Some req)))"

subsection \<open>Rendering\<close>

record option_item =
  opt_label :: string
  opt_value :: string

record cell_props =
  cvalue :: jsval
  ctype :: cell_type
  coptions :: "option_item list option"

fun map_try :: "('a \<Rightarrow> js_error + 'b) \<Rightarrow> 'a list \<Rightarrow> js_error + 'b list" where
  "map_try f [] = Inr []"
| "map_try f (x # xs) =
     (case f x of
        Inl e \<Rightarrow> Inl e
      | Inr y \<Rightarrow> (case map_try f xs of Inl e \<Rightarrow> Inl e | Inr ys \<Rightarrow> Inr (y # ys)))"

datatype table_body = LoadingRow | MessageRow string | DataRows "cell_props list list"

record table_view =
  tv_headers :: "string list"
  tv_body :: table_body
  tv_loadMore :: "bool option"
  tv_noMore :: bool

datatype render_result =
    NotFound
  | ConnectionRequired
  | RenderError js_error
  | Rendered table_view

text \<open>
  One table cell: \<^verbatim>\<open>row.fields[column.id]\<close> handed to an editable cell together with the
  column's type and an empty option list.
\<close>

definition render_cell :: "obj \<Rightarrow> column \<Rightarrow> js_error + cell_props" where
  "render_cell row c =
     (case get_member (get_own row ''fields'') (col_id c) of
        Inl e \<Rightarrow> Inl e
      | Inr v \<Rightarrow> Inr \<lparr> cvalue = v, ctype = col_type c, coptions = Some [] \<rparr>)"

definition render_body :: "column list \<Rightarrow> table_state \<Rightarrow> js_error + table_body" where
  "render_body cols s =
     (if initialLoad s then Inr LoadingRow
      else if length (rows s) = 0
      then Inr (MessageRow (if loading s then ''Loading...'' else ''No results found.''))
      else (case map_try (\<lambda>row. map_try (render_cell row) cols) (rows s) of
              Inl e \<Rightarrow> Inl e
            | Inr cells \<Rightarrow> Inr (DataRows cells)))"

text \<open>
  The component function: one call is one render. The load-more button is present when
  \<^verbatim>\<open>hasMore && rows.length > 0\<close>; its value is the \<^verbatim>\<open>disabled\<close> flag.
\<close>

definition ClientResourceTable :: "string \<Rightarrow> string \<Rightarrow> table_state \<Rightarrow> render_result" where
  "ClientResourceTable model sessionToken s =
     (case models_get model of
        None \<Rightarrow> NotFound
      | Some modelDetails \<Rightarrow>
          (let cols = allColumns modelDetails
           in if sessionToken = [] then ConnectionRequired
              else (case render_body cols s of
                      Inl e \<Rightarrow> RenderError e
                    | Inr b \<Rightarrow>
                        Rendered
                          \<lparr> tv_headers = map header cols,
                            tv_body = b,
                            tv_loadMore =
                              (if hasMore s \<and> length (rows s) > 0
                               then Some (loadingMore s \<or> sessionToken = []) else None),
                            tv_noMore = (\<not> hasMore s \<and> length (rows s) > 0) \<rparr>)))"

definition rendered_types :: "render_result \<Rightarrow> cell_type list list" where
  "rendered_types r =
     (case r of
        Rendered v \<Rightarrow> (case tv_body v of DataRows cells \<Rightarrow> map (map ctype) cells | _ \<Rightarrow> [])
      | _ \<Rightarrow> [])"

definition rendered_cells :: "render_result \<Rightarrow> cell_props list list" where
  "rendered_cells r =
     (case r of
        Rendered v \<Rightarrow> (case tv_body v of DataRows cells \<Rightarrow> cells | _ \<Rightarrow> [])
      | _ \<Rightarrow> [])"

section \<open>Editable cell\<close>

record cell_state =
  isEditing :: bool
  editValue :: jsval

text \<open>
  What a cell shows. Calls into the platform and the date library stay symbolic:
  \<open>Format v p\<close> is \<^verbatim>\<open>format(new Date(v), p)\<close> and \<open>StringOf v\<close> is \<^verbatim>\<open>String(v)\<close>; a
  formatted date is a non-empty text.
\<close>

datatype node = Text string | Value jsval | Format jsval string | StringOf jsval

fun node_truthy :: "node \<Rightarrow> bool" where
  "node_truthy (Text s) = (s \<noteq> [])"
| "node_truthy (Value v) = truthy v"
| "node_truthy (Format v p) = True"
| "node_truthy (StringOf v) = True"

text \<open>
  The element returned by a render. Each widget carries the handlers of the source:
  the display cell \<^verbatim>\<open>onClick\<close>; the two selectors \<^verbatim>\<open>onValueChange\<close>; the calendar
  \<^verbatim>\<open>onSelect\<close>; the input \<^verbatim>\<open>onChange\<close>, \<^verbatim>\<open>onKeyDown\<close> and \<^verbatim>\<open>onBlur\<close>.
\<close>

datatype cell_view =
    SelectWidget node "option_item list"
  | DateWidget node "jsval option"
  | BooleanWidget string "option_item list"
  | InputWidget string jsval
  | DisplayCell node

definition display_value :: "cell_props \<Rightarrow> node" where
  "display_value p =
     (case ctype p of
        TDate \<Rightarrow> (if truthy (cvalue p) then Format (cvalue p) ''PP'' else Text ''-'')
      | TBoolean \<Rightarrow> Text (if truthy (cvalue p) then ''Yes'' else ''No'')
      | TSelect \<Rightarrow>
          (case coptions p of
             None \<Rightarrow> Value (cvalue p)
           | Some opts \<Rightarrow>
               (case find (\<lambda>o'. VStr (opt_value o') = cvalue p) opts of
                  None \<Rightarrow> Value (cvalue p)
                | Some o' \<Rightarrow> (if opt_label o' \<noteq> [] then Text (opt_label o')
                              else Value (cvalue p))))
      | _ \<Rightarrow> Value (cvalue p))"

definition EditableCell :: "cell_props \<Rightarrow> cell_state \<Rightarrow> cell_view" where
  "EditableCell p s =
     (if isEditing s then
        (case ctype p of
           TSelect \<Rightarrow>
             SelectWidget (StringOf (editValue s))
               (case coptions p of None \<Rightarrow> [] | Some opts \<Rightarrow> opts)
         | TDate \<Rightarrow>
             DateWidget
               (if truthy (editValue s) then Format (editValue s) ''PPP''
                else Text ''Pick a date'')
               (if truthy (editValue s) then Some (editValue s) else None)
         | TBoolean \<Rightarrow>
             BooleanWidget (if truthy (editValue s) then ''true'' else ''false'')
               [ \<lparr> opt_label = ''Yes'', opt_value = ''true'' \<rparr>,
                 \<lparr> opt_label = ''No'', opt_value = ''false'' \<rparr> ]
         | _ \<Rightarrow> InputWidget (if ctype p = TNumber then ''number'' else ''text'') (editValue s))
      else
        (let displayValue = display_value p
         in DisplayCell (if node_truthy displayValue then displayValue else Text ''-'')))"

definition handleStartEdit :: "cell_props \<Rightarrow> cell_state \<Rightarrow> cell_state" where
  "handleStartEdit p s = s\<lparr>editValue := cvalue p, isEditing := True\<rparr>"

definition handleCancel :: "cell_state \<Rightarrow> cell_state" where
  "handleCancel s = s\<lparr>isEditing := False\<rparr>"

text \<open>
  A handler returns the new state and the values passed to \<^verbatim>\<open>onUpdate\<close>, in order.
  \<^verbatim>\<open>handleSave\<close> awaits the callback before it leaves edit mode; \<open>resolves\<close> tells
  whether the awaited promise is fulfilled.
\<close>

definition handleSave :: "bool \<Rightarrow> cell_state \<Rightarrow> cell_state \<times> jsval list" where
  "handleSave resolves s =
     ((if resolves then s\<lparr>isEditing := False\<rparr> else s), [editValue s])"

definition handleKeyDown :: "bool \<Rightarrow> string \<Rightarrow> cell_state \<Rightarrow> cell_state \<times> jsval list" where
  "handleKeyDown resolves key s =
     (if key = ''Enter'' then handleSave resolves s
      else if key = ''Escape'' then (handleCancel s, [])
      else (s, []))"

text \<open>
  User events. \<open>DateSelect d\<close> carries \<^verbatim>\<open>date?.toISOString()\<close> of the day picked in the
  calendar, \<open>None\<close> when the selection was cleared.
\<close>

datatype cell_event =
    Click
  | KeyDown string
  | Blur
  | Change string
  | ValueChange string
  | DateSelect "string option"

text \<open>An event reaches the handler that the rendered widget has for it, if any.\<close>

definition handle_event ::
  "cell_props \<Rightarrow> bool \<Rightarrow> cell_state \<Rightarrow> cell_event \<Rightarrow> cell_state \<times> jsval list" where
  "handle_event p resolves s ev =
     (case EditableCell p s of
        DisplayCell n \<Rightarrow>
          (case ev of Click \<Rightarrow> (handleStartEdit p s, []) | _ \<Rightarrow> (s, []))
      | SelectWidget v items \<Rightarrow>
          (case ev of
             ValueChange val \<Rightarrow> (s\<lparr>editValue := VStr val, isEditing := False\<rparr>, [VStr val])
           | _ \<Rightarrow> (s, []))
      | DateWidget label selected \<Rightarrow>
          (case ev of
             DateSelect d \<Rightarrow>
               (let dateValue = (case d of Some str \<Rightarrow> (if str \<noteq> [] then str else [])
                                 | None \<Rightarrow> [])
                in (s\<lparr>editValue := VStr dateValue, isEditing := False\<rparr>, [VStr dateValue]))
           | _ \<Rightarrow> (s, []))
      | BooleanWidget v items \<Rightarrow>
          (case ev of
             ValueChange val \<Rightarrow>
               (let boolValue = VBool (val = ''true'')
                in (s\<lparr>editValue := boolValue, isEditing := False\<rparr>, [boolValue]))
           | _ \<Rightarrow> (s, []))
      | InputWidget ty v \<Rightarrow>
          (case ev of
             Change txt \<Rightarrow> (s\<lparr>editValue := VStr txt\<rparr>, [])
           | KeyDown key \<Rightarrow> handleKeyDown resolves key s
           | Blur \<Rightarrow> handleSave resolves s
           | _ \<Rightarrow> (s, [])))"

text \<open>
  The effect with dependencies \<^verbatim>\<open>[value, isEditing]\<close>, after an event that left the
  \<^verbatim>\<open>value\<close> prop as it was: it runs when \<^verbatim>\<open>isEditing\<close> changed, and outside edit mode it
  resets the edit value to the prop.
\<close>

definition sync_effect :: "cell_props \<Rightarrow> cell_state \<Rightarrow> cell_state \<Rightarrow> cell_state" where
  "sync_effect p old new =
     (if isEditing old \<noteq> isEditing new
      then (if \<not> isEditing new then new\<lparr>editValue := cvalue p\<rparr> else new)
      else new)"

definition cell_step ::
  "cell_props \<Rightarrow> bool \<Rightarrow> cell_state \<Rightarrow> cell_event \<Rightarrow> cell_state \<times> jsval list" where
  "cell_step p resolves s ev =
     (let (s', calls) = handle_event p resolves s ev in (sync_effect p s s', calls))"

section \<open>Server resource page\<close>

record route_params =
  connectorId :: string
  modelId :: string

record list_call =
  call_ownerId :: string
  call_connectorId :: string
  call_model :: string
  call_request :: list_request

datatype server_body = NoResults | ServerRows "jsval list list"

record server_view =
  sv_title :: string
  sv_description :: string
  sv_search :: "string option"
  sv_headers :: "string list"
  sv_body :: server_body

datatype page_result = NotFoundResponse | Page server_view

text \<open>\<^verbatim>\<open>v?.id\<close>.\<close>

definition optional_id :: "jsval \<Rightarrow> jsval" where
  "optional_id v =
     (if v = VUndefined \<or> v = VNull then VUndefined
      else (case get_member v ''id'' of Inl e \<Rightarrow> VUndefined | Inr i \<Rightarrow> i))"

text \<open>A reference field shows its identifier, any other field its value.\<close>

definition server_cell :: "obj \<Rightarrow> field \<Rightarrow> js_error + jsval" where
  "server_cell row f =
     (case get_member (get_own row ''fields'') (field_id f) of
        Inl e \<Rightarrow> Inl e
      | Inr v \<Rightarrow> Inr (if truthy (optional_id v) then optional_id v else v))"

definition server_list_call :: "route_params \<Rightarrow> model \<Rightarrow> string option \<Rightarrow> list_call" where
  "server_list_call p modelDetails q =
     \<lparr> call_ownerId = getUserOrOrgId, call_connectorId = connectorId p,
       call_model = modelId p,
       call_request =
         \<lparr> req_fields = map field_id (model_fields modelDetails), req_limit = 10,
           req_q = q, req_cursor = VUndefined \<rparr> \<rparr>"

text \<open>
  The body of the \<^verbatim>\<open>try\<close> block: every \<^verbatim>\<open>throw\<close> and every rejected \<^verbatim>\<open>await\<close> is an
  \<open>Inl\<close>. \<open>list_api\<close> is the hosted service.
\<close>

definition page_body ::
  "route_params outcome \<Rightarrow> string option outcome \<Rightarrow> (list_call \<Rightarrow> list_response outcome)
     \<Rightarrow> js_error + server_view" where
  "page_body params searchParams list_api =
     (case params of
        Throws e \<Rightarrow> Inl e
      | Returns p \<Rightarrow>
     (case searchParams of
        Throws e \<Rightarrow> Inl e
      | Returns q \<Rightarrow>
     (case models_get (modelId p) of
        None \<Rightarrow> Inl (Error (''Model '' @ modelId p @ '' not found''))
      | Some modelDetails \<Rightarrow>
     (case list_api (server_list_call p modelDetails q) of
        Throws e \<Rightarrow> Inl e
      | Returns r \<Rightarrow>
     (case resp_error r of
        Some msg \<Rightarrow> Inl (Error (''Failed to fetch resources: '' @ msg))
      | None \<Rightarrow>
     (case (if length (resp_data r) = 0 then Inr NoResults
            else (case map_try (\<lambda>row. map_try (server_cell row) (model_fields modelDetails))
                         (resp_data r) of
                    Inl e \<Rightarrow> Inl e
                  | Inr cells \<Rightarrow> Inr (ServerRows cells))) of
        Inl e \<Rightarrow> Inl e
      | Inr body \<Rightarrow>
          Inr \<lparr> sv_title = model_name modelDetails,
                sv_description = ''Server-side '' @ model_name modelDetails @ '' resources'',
                sv_search = q,
                sv_headers = map field_name (model_fields modelDetails),
                sv_body = body \<rparr>))))))"

text \<open>The \<^verbatim>\<open>catch\<close> at the page boundary calls \<^verbatim>\<open>notFound()\<close>.\<close>

definition ServerResourcePage ::
  "route_params outcome \<Rightarrow> string option outcome \<Rightarrow> (list_call \<Rightarrow> list_response outcome)
     \<Rightarrow> page_result" where
  "ServerResourcePage params searchParams list_api =
     (case page_body params searchParams list_api of
        Inl e \<Rightarrow> NotFoundResponse
      | Inr v \<Rightarrow> Page v)"

section \<open>Example inputs\<close>

definition ex_row1 :: obj where
  "ex_row1 = [(''id'', VStr ''r1''), (''fields'', VObj [(''name'', VStr ''Acme'')])]"

definition ex_row2 :: obj where
  "ex_row2 = [(''id'', VStr ''r2''), (''fields'', VObj [(''amount'', VNum 5)])]"

definition ex_row1_optimistic :: obj where
  "ex_row1_optimistic =
     [(''id'', VStr ''r1''), (''fields'', VObj [(''name'', VStr ''Acme'')]),
      (''name'', VStr ''New'')]"

definition ex_row1_confirmed :: obj where
  "ex_row1_confirmed = [(''id'', VStr ''r1''), (''fields'', VObj [(''name'', VStr ''New'')])]"

definition ex_state :: table_state where
  "ex_state =
     \<lparr> search = [], debouncedSearch = [], rows = [ex_row1], cursor = VStr ''c1'',
       hasMore = True, loading = False, loadingMore = False, initialLoad = False \<rparr>"

definition ex_closure :: closure where
  "ex_closure = new_closure crmOpportunity ''tok'' initial_state"

definition ex_response :: list_response where
  "ex_response = \<lparr> resp_data = [ex_row2], resp_error = None, resp_next = VUndefined \<rparr>"

definition ex_loading_state :: table_state where
  "ex_loading_state = initial_state\<lparr>loading := True\<rparr>"

definition ex_missing :: route_params where
  "ex_missing = \<lparr> connectorId = ''hubspot'', modelId = ''unknown'' \<rparr>"

definition ex_contacts :: route_params where
  "ex_contacts = \<lparr> connectorId = ''hubspot'', modelId = ''genericContact'' \<rparr>"

definition ex_failing_api :: "list_call \<Rightarrow> list_response outcome" where
  "ex_failing_api c = Throws (Error ''network'')"

definition ex_error_api :: "list_call \<Rightarrow> list_response outcome" where
  "ex_error_api c =
     Returns \<lparr> resp_data = [], resp_error = Some ''unauthorized'', resp_next = VNull \<rparr>"

definition ex_bool_cell :: cell_props where
  "ex_bool_cell = \<lparr> cvalue = VBool True, ctype = TBoolean, coptions = Some [] \<rparr>"


definition ex_row3 :: obj where
  "ex_row3 =
     [(''id'', VStr ''r3''), (''fields'', VObj [(''fld_journeybee_lead__c'', VBool True)])]"

definition ex_bool_response :: list_response where
  "ex_bool_response = \<lparr> resp_data = [ex_row3], resp_error = None, resp_next = VNull \<rparr>"

definition ex_empty_cell :: cell_props where
  "ex_empty_cell = \<lparr> cvalue = VUndefined, ctype = TText, coptions = Some [] \<rparr>"

definition ex_true_cell :: cell_props where
  "ex_true_cell = \<lparr> cvalue = VBool True, ctype = TText, coptions = Some [] \<rparr>"


section \<open>Properties of loading\<close>

lemma get_member_fields:
  "has_fields item \<Longrightarrow> \<exists>v. get_member (get_own item ''fields'') k = Inr v"
  by (cases "get_own item ''fields''") (auto simp: has_fields_def)

lemma infer_field_no_throw:
  "has_fields item \<Longrightarrow> snd (infer_field parses item f cols) = None"
  using get_member_fields [of item "field_id f"]
  by (auto simp: infer_field_def split: option.splits)

lemma forEach_no_throw:
  "(\<And>x s. x \<in> set xs \<Longrightarrow> snd (f x s) = None) \<Longrightarrow> snd (forEach f xs s) = None"
proof (induction xs arbitrary: s)
  case Nil
  then show ?case by simp
next
  case (Cons x xs)
  have "snd (f x s) = None" using Cons.prems by simp
  then obtain s' where fx: "f x s = (s', None)" by (cases "f x s") auto
  have "snd (forEach f xs s') = None" using Cons.IH Cons.prems by simp
  then show ?case using fx by simp
qed

lemma infer_columns_no_throw:
  "list_all has_fields data \<Longrightarrow> snd (infer_columns parses md data cols) = None"
  unfolding infer_columns_def
  by (rule forEach_no_throw, rule forEach_no_throw)
     (simp add: infer_field_no_throw list_all_iff)

lemma loadResources_end_successful:
  assumes "successful (Returns r)"
  shows "fst (loadResources_end parses cl isLoadMore (Returns r) s) =
         load_finally
           (s\<lparr>rows := (if isLoadMore then rows s @ resp_data r else resp_data r),
              cursor := (if truthy (resp_next r) then resp_next r else VUndefined),
              hasMore := (resp_next r \<noteq> VNull)\<rparr>)"
proof -
  from assms have e: "resp_error r = None" and d: "list_all has_fields (resp_data r)"
    by (simp_all add: successful_def)
  obtain cols where
    "infer_columns parses (cl_model cl) (resp_data r) (cl_columns cl) = (cols, None)"
    using infer_columns_no_throw [OF d, of parses "cl_model cl" "cl_columns cl"]
    by (cases "infer_columns parses (cl_model cl) (resp_data r) (cl_columns cl)") auto
  then show ?thesis
    by (simp add: loadResources_end_def e Let_def)
qed

text \<open>The effect of a new session token or search term empties the list before it fetches.\<close>

lemma load_effect_resets:
  "sessionToken \<noteq> [] \<Longrightarrow>
   rows (fst (load_effect cl sessionToken s)) = []
   \<and> cursor (fst (load_effect cl sessionToken s)) = VUndefined
   \<and> hasMore (fst (load_effect cl sessionToken s))
   \<and> req_cursor (the (snd (load_effect cl sessionToken s))) = VUndefined"
  by (simp add: load_effect_def loadResources_begin_def Let_def)

lemma ex_response_successful: "successful (Returns ex_response)"
  by (simp add: successful_def ex_response_def has_fields_def get_own_def ex_row2_def)

text \<open>
  Claim C3. A successful load-more fetch leaves the row list as the old rows followed by
  the batch: nothing is removed or replaced.
\<close>

theorem load_more_appends:
  assumes "rows s \<noteq> []" and "successful (Returns r)"
  shows "rows (fst (loadResources_end parses cl True (Returns r) s)) = rows s @ resp_data r"
  by (simp add: loadResources_end_successful [OF assms(2)] load_finally_def)

theorem load_more_appends_witness:
  "rows ex_state \<noteq> [] \<and> successful (Returns ex_response)
   \<and> rows (fst (loadResources_end (\<lambda>s. False) ex_closure True (Returns ex_response) ex_state))
       = [ex_row1, ex_row2]"
proof -
  have h1: "rows ex_state \<noteq> []" by (simp add: ex_state_def)
  have h2: "successful (Returns ex_response)" by (rule ex_response_successful)
  show ?thesis
    using h1 h2 load_more_appends [OF h1 h2, of "\<lambda>s. False" ex_closure]
    by (simp add: ex_state_def ex_response_def)
qed

text \<open>
  Claim C4. Triggering load-more starts a fetch exactly when \<^verbatim>\<open>hasMore\<close> is true and
  \<^verbatim>\<open>loadingMore\<close> is false; a fetch that starts raises \<^verbatim>\<open>loadingMore\<close>, which closes the
  guard for the state it leaves.
\<close>

theorem load_more_guard:
  "(handleLoadMore cl s \<noteq> None) = (hasMore s \<and> \<not> loadingMore s)
   \<and> (\<forall>s' req. handleLoadMore cl s = Some (s', req) \<longrightarrow>
         loadingMore s' \<and> handleLoadMore cl' s' = None)"
  by (auto simp: handleLoadMore_def loadResources_begin_def Let_def)

theorem load_more_guard_witness:
  "hasMore ex_state \<and> \<not> loadingMore ex_state
   \<and> (\<exists>s' req. handleLoadMore ex_closure ex_state = Some (s', req)
         \<and> loadingMore s' \<and> handleLoadMore ex_closure s' = None)
   \<and> handleLoadMore ex_closure (ex_state\<lparr>hasMore := False\<rparr>) = None
   \<and> handleLoadMore ex_closure (ex_state\<lparr>loadingMore := True\<rparr>) = None"
proof -
  have g: "hasMore ex_state \<and> \<not> loadingMore ex_state" by (simp add: ex_state_def)
  from g load_more_guard [of ex_closure ex_state ex_closure]
  obtain s' req where st: "handleLoadMore ex_closure ex_state = Some (s', req)"
    by fastforce
  with load_more_guard [of ex_closure ex_state ex_closure]
  have a: "loadingMore s' \<and> handleLoadMore ex_closure s' = None" by blast
  have b: "handleLoadMore ex_closure (ex_state\<lparr>hasMore := False\<rparr>) = None"
    using conjunct1 [OF load_more_guard [of ex_closure "ex_state\<lparr>hasMore := False\<rparr>" ex_closure]]
    by (cases "handleLoadMore ex_closure (ex_state\<lparr>hasMore := False\<rparr>)") auto
  have c: "handleLoadMore ex_closure (ex_state\<lparr>loadingMore := True\<rparr>) = None"
    using conjunct1 [OF load_more_guard [of ex_closure "ex_state\<lparr>loadingMore := True\<rparr>" ex_closure]]
    by (cases "handleLoadMore ex_closure (ex_state\<lparr>loadingMore := True\<rparr>)") auto
  from g st a b c show ?thesis by blast
qed

text \<open>
  Claim C9. After a successful list fetch \<^verbatim>\<open>hasMore\<close> is true exactly when the returned
  \<^verbatim>\<open>next\<close> is not \<^verbatim>\<open>null\<close>, and the stored cursor is \<^verbatim>\<open>next\<close> when that is truthy and
  \<^verbatim>\<open>undefined\<close> otherwise; with \<^verbatim>\<open>next\<close> undefined, \<^verbatim>\<open>hasMore\<close> stays true while the cursor
  is reset.
\<close>

theorem cursor_and_hasMore_after_fetch:
  assumes "successful (Returns r)"
  shows "hasMore (fst (loadResources_end parses cl isLoadMore (Returns r) s))
           = (resp_next r \<noteq> VNull)
     \<and> cursor (fst (loadResources_end parses cl isLoadMore (Returns r) s))
           = (if truthy (resp_next r) then resp_next r else VUndefined)
     \<and> (resp_next r = VUndefined \<longrightarrow>
          hasMore (fst (loadResources_end parses cl isLoadMore (Returns r) s))
          \<and> cursor (fst (loadResources_end parses cl isLoadMore (Returns r) s)) = VUndefined)"
  by (simp add: loadResources_end_successful [OF assms] load_finally_def)

theorem cursor_and_hasMore_after_fetch_witness:
  "successful (Returns ex_response) \<and> resp_next ex_response = VUndefined
   \<and> hasMore (fst (loadResources_end (\<lambda>s. False) ex_closure True (Returns ex_response) ex_state))
   \<and> cursor (fst (loadResources_end (\<lambda>s. False) ex_closure True (Returns ex_response) ex_state))
       = VUndefined"
proof -
  have h: "successful (Returns ex_response)" by (rule ex_response_successful)
  have n: "resp_next ex_response = VUndefined" by (simp add: ex_response_def)
  show ?thesis
    using h n cursor_and_hasMore_after_fetch [OF h, of "\<lambda>s. False" ex_closure True ex_state]
    by simp
qed

lemma useCallback_debouncedSearch:
  "cl_debouncedSearch (useCallback_loadResources prev md tok s) = debouncedSearch s"
  by (simp add: useCallback_loadResources_def new_closure_def split: option.splits)

text \<open>
  Claim C10. Whatever callback \<^verbatim>\<open>useCallback\<close> hands to a render, a list request issued
  through it carries the debounced search term of that render as \<^verbatim>\<open>q\<close> when the term is
  non-empty, and no \<^verbatim>\<open>q\<close> (\<^verbatim>\<open>undefined\<close>, not the empty string) when it is empty.
\<close>

theorem list_request_q:
  "req_q (snd (loadResources_begin (useCallback_loadResources prev md tok s) isLoadMore s')) =
     (if debouncedSearch s \<noteq> [] then Some (debouncedSearch s) else None)"
  by (simp add: loadResources_begin_def Let_def useCallback_debouncedSearch)

theorem list_request_q_witness:
  "req_q (snd (loadResources_begin
        (useCallback_loadResources (Some ex_closure) crmOpportunity ''tok''
           (ex_state\<lparr>debouncedSearch := ''acme''\<rparr>)) False ex_state)) = Some ''acme''
   \<and> req_q (snd (loadResources_begin
        (useCallback_loadResources (Some ex_closure) crmOpportunity ''tok'' ex_state)
           True ex_state)) = None"
  using list_request_q [of "Some ex_closure" crmOpportunity "''tok''"
               "ex_state\<lparr>debouncedSearch := ''acme''\<rparr>" False ex_state]
        list_request_q [of "Some ex_closure" crmOpportunity "''tok''" ex_state True ex_state]
  by (simp add: ex_state_def)

section \<open>Properties of the cell update\<close>

lemma models_get_simps:
  "models_get ''genericContact'' = Some genericContact"
  "models_get ''genericCompany'' = Some genericCompany"
  "models_get ''crmOpportunity'' = Some crmOpportunity"
  by (simp_all add: models_get_def MODELS_def genericContact_def genericCompany_def
        crmOpportunity_def)

lemma models_get_cases:
  "models_get m = Some md \<Longrightarrow> md = genericContact \<or> md = genericCompany \<or> md = crmOpportunity"
  by (auto simp: models_get_def MODELS_def split: if_splits)

text \<open>No field of a registered model is called \<^verbatim>\<open>fields\<close> or \<^verbatim>\<open>id\<close>.\<close>

lemma field_ids_not_reserved:
  assumes "models_get m = Some md" "columnId \<in> set (map field_id (model_fields md))"
  shows "columnId \<noteq> ''fields'' \<and> columnId \<noteq> ''id''"
  using models_get_cases [OF assms(1)] assms(2)
  by (auto simp: genericContact_def genericCompany_def crmOpportunity_def)

lemma get_own_spread_with:
  "get_own (spread_with ps k v) k' = (if k' = k then v else get_own ps k')"
  by (simp add: get_own_def spread_with_def update_conv')

lemma optimistic_fields:
  "columnId \<noteq> ''fields'' \<Longrightarrow>
   map (\<lambda>row. get_own row ''fields'') (optimistic_update rowId columnId v prev) =
   map (\<lambda>row. get_own row ''fields'') prev"
  by (simp add: optimistic_update_def get_own_spread_with)

lemma map_try_cong_map:
  "map h xs = map h ys \<Longrightarrow> (\<And>x. f x = g (h x)) \<Longrightarrow> map_try f xs = map_try f ys"
proof (induction xs arbitrary: ys)
  case Nil
  then show ?case by simp
next
  case (Cons x xs)
  then obtain y ys' where ys: "ys = y # ys'" "h x = h y" "map h xs = map h ys'" by auto
  have "map_try f xs = map_try f ys'" using Cons.IH ys(3) Cons.prems(2) by blast
  moreover have "f x = f y" using Cons.prems(2) ys(2) by simp
  ultimately show ?case unfolding ys(1) by (simp only: map_try.simps)
qed

lemma render_rows_fields:
  assumes "map (\<lambda>row. get_own row ''fields'') rs = map (\<lambda>row. get_own row ''fields'') rs'"
  shows "map_try (\<lambda>row. map_try (render_cell row) cols) rs =
         map_try (\<lambda>row. map_try (render_cell row) cols) rs'"
proof (rule map_try_cong_map [OF assms])
  fix x :: obj
  show "map_try (render_cell x) cols =
        (\<lambda>fv. map_try (\<lambda>c. case get_member fv (col_id c) of Inl e \<Rightarrow> Inl e
                      | Inr v \<Rightarrow> Inr \<lparr> cvalue = v, ctype = col_type c, coptions = Some [] \<rparr>) cols)
          (get_own x ''fields'')"
    by (simp add: render_cell_def [abs_def])
qed

lemma render_body_fields:
  assumes "map (\<lambda>row. get_own row ''fields'') (rows s) = map (\<lambda>row. get_own row ''fields'') (rows s')"
    and "initialLoad s = initialLoad s'" and "loading s = loading s'"
  shows "render_body cols s = render_body cols s'"
proof -
  have "length (rows s) = length (rows s')" using assms(1) by (rule map_eq_imp_length_eq)
  then show ?thesis
    using render_rows_fields [OF assms(1), of cols] assms(2,3)
    by (simp add: render_body_def)
qed

text \<open>
  Claim C8. For a cell update on a column of a registered model: the optimistic step
  leaves every row's \<^verbatim>\<open>fields\<close> mapping as it was and writes the value to the top-level
  property \<^verbatim>\<open>row[columnId]\<close> of the rows with the identifier, so the table renders what
  it rendered before; \<^verbatim>\<open>row.fields[columnId]\<close> becomes the new value when the remote
  update returns without error, and on any other outcome the completion leaves the rows
  untouched.
\<close>

theorem optimistic_update_leaves_fields:
  assumes "models_get model = Some md" and "columnId \<in> set (map field_id (model_fields md))"
  shows "map (\<lambda>row. get_own row ''fields'') (rows (fst (handleCellUpdate_begin rowId columnId v s)))
           = map (\<lambda>row. get_own row ''fields'') (rows s)
       \<and> (\<forall>row \<in> set (rows (fst (handleCellUpdate_begin rowId columnId v s))).
             get_own row ''id'' = VStr rowId \<longrightarrow> get_own row columnId = v)
       \<and> ClientResourceTable model tok (fst (handleCellUpdate_begin rowId columnId v s))
           = ClientResourceTable model tok s
       \<and> (\<forall>row \<in> set (rows (fst (handleCellUpdate_end cl rowId columnId v (Returns None) s'))).
             get_own row ''id'' = VStr rowId \<longrightarrow>
             get_member (get_own row ''fields'') columnId = Inr v)
       \<and> (out \<noteq> Returns None \<longrightarrow>
             rows (fst (handleCellUpdate_end cl rowId columnId v out s')) = rows s')"
proof -
  from field_ids_not_reserved [OF assms]
  have nf: "columnId \<noteq> ''fields''" and ni: "columnId \<noteq> ''id''"
    by simp_all
  let ?s1 = "fst (handleCellUpdate_begin rowId columnId v s)"
  have r1: "rows ?s1 = optimistic_update rowId columnId v (rows s)"
    by (simp add: handleCellUpdate_begin_def)
  have f: "map (\<lambda>row. get_own row ''fields'') (rows ?s1) = map (\<lambda>row. get_own row ''fields'') (rows s)"
    using optimistic_fields [OF nf] r1 by simp
  have t: "\<forall>row \<in> set (rows ?s1). get_own row ''id'' = VStr rowId \<longrightarrow> get_own row columnId = v"
    using ni by (auto simp: r1 optimistic_update_def get_own_spread_with split: if_splits)
  have flags: "initialLoad ?s1 = initialLoad s" "loading ?s1 = loading s"
     "hasMore ?s1 = hasMore s" "loadingMore ?s1 = loadingMore s"
    by (simp_all add: handleCellUpdate_begin_def)
  have len: "length (rows ?s1) = length (rows s)" by (simp add: r1 optimistic_update_def)
  have rb: "\<And>cols. render_body cols ?s1 = render_body cols s"
    using render_body_fields [OF f flags(1,2)] .
  have v: "ClientResourceTable model tok ?s1 = ClientResourceTable model tok s"
    by (simp only: ClientResourceTable_def rb flags len)
  have c: "\<forall>row \<in> set (rows (fst (handleCellUpdate_end cl rowId columnId v (Returns None) s'))).
             get_own row ''id'' = VStr rowId \<longrightarrow>
             get_member (get_own row ''fields'') columnId = Inr v"
    by (auto simp: handleCellUpdate_end_def confirmed_update_def get_own_spread_with
          split: if_splits)
  have e: "out \<noteq> Returns None \<longrightarrow>
             rows (fst (handleCellUpdate_end cl rowId columnId v out s')) = rows s'"
    by (cases out) (auto simp: handleCellUpdate_end_def loadResources_begin_def Let_def)
  from f t v c e show ?thesis by blast
qed

theorem optimistic_update_leaves_fields_witness:
  "models_get ''crmOpportunity'' = Some crmOpportunity
   \<and> ''name'' \<in> set (map field_id (model_fields crmOpportunity))
   \<and> rows (fst (handleCellUpdate_begin ''r1'' ''name'' (VStr ''New'') ex_state))
       = [ex_row1_optimistic]
   \<and> get_own ex_row1_optimistic ''id'' = VStr ''r1''
   \<and> get_own ex_row1_optimistic ''name'' = VStr ''New''
   \<and> get_own ex_row1_optimistic ''fields'' = get_own ex_row1 ''fields''
   \<and> ClientResourceTable ''crmOpportunity'' ''tok''
         (fst (handleCellUpdate_begin ''r1'' ''name'' (VStr ''New'') ex_state))
       = ClientResourceTable ''crmOpportunity'' ''tok'' ex_state
   \<and> rows (fst (handleCellUpdate_end ex_closure ''r1'' ''name'' (VStr ''New'') (Returns None)
         ex_state)) = [ex_row1_confirmed]
   \<and> get_member (get_own ex_row1_confirmed ''fields'') ''name'' = Inr (VStr ''New'')
   \<and> Returns (Some ''rejected'') \<noteq> (Returns None :: string option outcome)
   \<and> rows (fst (handleCellUpdate_end ex_closure ''r1'' ''name'' (VStr ''New'')
         (Returns (Some ''rejected'')) ex_state)) = rows ex_state"
proof -
  have m: "models_get ''crmOpportunity'' = Some crmOpportunity"
    by (rule models_get_simps)
  have k: "''name'' \<in> set (map field_id (model_fields crmOpportunity))"
    by (simp add: crmOpportunity_def)
  note inst = optimistic_update_leaves_fields
                [OF m k, of "''r1''" "VStr ''New''" ex_state "''tok''" ex_closure ex_state
                  "Returns (Some ''rejected'')"]
  have r1: "rows (fst (handleCellUpdate_begin ''r1'' ''name'' (VStr ''New'') ex_state))
              = [ex_row1_optimistic]"
    by (simp add: handleCellUpdate_begin_def optimistic_update_def ex_state_def ex_row1_def
          ex_row1_optimistic_def get_own_def spread_with_def)
  have r2: "rows (fst (handleCellUpdate_end ex_closure ''r1'' ''name'' (VStr ''New'')
              (Returns None) ex_state)) = [ex_row1_confirmed]"
    by (simp add: handleCellUpdate_end_def confirmed_update_def ex_state_def ex_row1_def
          ex_row1_confirmed_def get_own_def spread_with_def)
  have i1: "get_own ex_row1_optimistic ''id'' = VStr ''r1''"
    by (simp add: ex_row1_optimistic_def get_own_def)
  have i2: "get_own ex_row1_confirmed ''id'' = VStr ''r1''"
    by (simp add: ex_row1_confirmed_def get_own_def)
  have ne: "Returns (Some ''rejected'') \<noteq> (Returns None :: string option outcome)" by simp
  from inst r1 i1 have a: "get_own ex_row1_optimistic ''name'' = VStr ''New''" by simp
  from inst r1 have b: "get_own ex_row1_optimistic ''fields'' = get_own ex_row1 ''fields''"
    by (simp add: ex_state_def)
  from inst have c: "ClientResourceTable ''crmOpportunity'' ''tok''
         (fst (handleCellUpdate_begin ''r1'' ''name'' (VStr ''New'') ex_state))
       = ClientResourceTable ''crmOpportunity'' ''tok'' ex_state" by blast
  from inst r2 i2
  have d: "get_member (get_own ex_row1_confirmed ''fields'') ''name'' = Inr (VStr ''New'')"
    by simp
  from inst ne have e: "rows (fst (handleCellUpdate_end ex_closure ''r1'' ''name'' (VStr ''New'')
         (Returns (Some ''rejected'')) ex_state)) = rows ex_state" by blast
  from m k r1 i1 a b c r2 d ne e show ?thesis by blast
qed

text \<open>
  The two failure paths of a cell update differ. A thrown update calls
  \<^verbatim>\<open>loadResources()\<close>, and a successful reload replaces the whole row list.
\<close>

lemma cell_update_throw_reloads:
  "handleCellUpdate_end cl rowId columnId v (Throws e) s =
     (s\<lparr>loading := True\<rparr>, [update_failed_toast], Some (snd (loadResources_begin cl False s)))"
  by (simp add: handleCellUpdate_end_def loadResources_begin_def Let_def)

lemma reload_replaces_rows:
  "successful (Returns r) \<Longrightarrow>
   rows (fst (loadResources_end parses cl False (Returns r) s)) = resp_data r"
  by (simp add: loadResources_end_successful load_finally_def)

text \<open>
  Claim C1. A failed cell update is to reload the whole row set and show an error
  notification, whether the remote call throws or returns an error result. On an error
  result the code shows the notification and returns: no list request is issued, and the
  rows keep the optimistic top-level property.
\<close>

theorem cell_update_error_result_no_reload:
  "handleCellUpdate_end ex_closure ''r1'' ''name'' (VStr ''New'') (Returns (Some ''rejected''))
     (fst (handleCellUpdate_begin ''r1'' ''name'' (VStr ''New'') ex_state))
   = (ex_state\<lparr>rows := [ex_row1_optimistic]\<rparr>, [error_updating_toast], None)"
  by (simp add: handleCellUpdate_end_def handleCellUpdate_begin_def optimistic_update_def
        ex_state_def ex_row1_def ex_row1_optimistic_def get_own_def spread_with_def)

section \<open>Properties of the column types\<close>






text \<open>
  Claim C2. Column types start as \<^verbatim>\<open>"text"\<close>, a fetched batch upgrades the type of a field
  with a number, boolean or date value, and the upgraded type chooses the cell's edit
  widget. After a first batch with a numeric \<^verbatim>\<open>amount\<close>, the column array that the
  callback captured holds \<^verbatim>\<open>"number"\<close> for that column, yet the render of the resulting
  state hands \<^verbatim>\<open>"text"\<close> to every cell: the render builds its own array.
\<close>

theorem inferred_type_not_rendered:
  "map col_type (cl_columns (fst (snd (loadResources_end (\<lambda>s. False) ex_closure False
        (Returns ex_response) ex_loading_state))))
     = [TText, TNumber, TText, TText, TText, TText]
   \<and> rendered_types (ClientResourceTable ''crmOpportunity'' ''tok''
        (fst (loadResources_end (\<lambda>s. False) ex_closure False
           (Returns ex_response) ex_loading_state)))
     = [[TText, TText, TText, TText, TText, TText]]"
  by (simp add: loadResources_end_def ex_closure_def new_closure_def ex_response_def
        infer_columns_def infer_field_def infer_type_def crmOpportunity_def allColumns_def
        ex_row2_def get_own_def initial_state_def load_finally_def rendered_types_def
        ClientResourceTable_def models_get_simps render_body_def render_cell_def Let_def
        ex_loading_state_def)

section \<open>Properties of the server resource page\<close>

text \<open>
  Claim C5. The server resource page answers not-found when the model is not in the
  registry, when the list call throws, when it returns an error result, and whenever
  anything in the construction of the page throws.
\<close>

theorem server_page_not_found:
  "(models_get (modelId p) = None \<longrightarrow> ServerResourcePage (Returns p) sp api = NotFoundResponse)
   \<and> (models_get (modelId p) = Some md \<and> api (server_list_call p md q) = Throws e \<longrightarrow>
        ServerResourcePage (Returns p) (Returns q) api = NotFoundResponse)
   \<and> (models_get (modelId p) = Some md \<and> api (server_list_call p md q) = Returns r
        \<and> resp_error r = Some msg \<longrightarrow>
        ServerResourcePage (Returns p) (Returns q) api = NotFoundResponse)
   \<and> (page_body params sp api = Inl err \<longrightarrow>
        ServerResourcePage params sp api = NotFoundResponse)"
  by (auto simp: ServerResourcePage_def page_body_def split: outcome.splits)

theorem server_page_not_found_witness:
  "models_get (modelId ex_missing) = None
   \<and> ServerResourcePage (Returns ex_missing) (Returns None) ex_error_api = NotFoundResponse
   \<and> models_get (modelId ex_contacts) = Some genericContact
   \<and> ex_failing_api (server_list_call ex_contacts genericContact (Some ''ada''))
        = Throws (Error ''network'')
   \<and> ServerResourcePage (Returns ex_contacts) (Returns (Some ''ada'')) ex_failing_api
        = NotFoundResponse
   \<and> resp_error \<lparr> resp_data = [], resp_error = Some ''unauthorized'', resp_next = VNull \<rparr>
        = Some ''unauthorized''
   \<and> ServerResourcePage (Returns ex_contacts) (Returns (Some ''ada'')) ex_error_api
        = NotFoundResponse
   \<and> page_body (Throws TypeError) (Returns None) ex_error_api = Inl TypeError
   \<and> ServerResourcePage (Throws TypeError) (Returns None) ex_error_api = NotFoundResponse"
proof -
  have a: "models_get (modelId ex_missing) = None"
    by (simp add: ex_missing_def models_get_def MODELS_def genericContact_def
          genericCompany_def crmOpportunity_def)
  have b: "models_get (modelId ex_contacts) = Some genericContact"
    by (simp add: ex_contacts_def models_get_simps)
  have c: "ex_failing_api (server_list_call ex_contacts genericContact (Some ''ada''))
        = Throws (Error ''network'')" by (simp add: ex_failing_api_def)
  have d: "ex_error_api (server_list_call ex_contacts genericContact (Some ''ada''))
        = Returns \<lparr> resp_data = [], resp_error = Some ''unauthorized'', resp_next = VNull \<rparr>"
    by (simp add: ex_error_api_def)
  have e: "page_body (Throws TypeError) (Returns None) ex_error_api = Inl TypeError"
    by (simp add: page_body_def)
  show ?thesis
    using a b c d e
      server_page_not_found
        [where p = ex_missing and sp = "Returns None" and api = ex_error_api]
      server_page_not_found
        [where p = ex_contacts and md = genericContact and api = ex_failing_api
           and q = "Some ''ada''" and e = "Error ''network''"]
      server_page_not_found
        [where p = ex_contacts and md = genericContact and api = ex_error_api
           and q = "Some ''ada''" and msg = "''unauthorized''"
           and r = "\<lparr> resp_data = [], resp_error = Some ''unauthorized'', resp_next = VNull \<rparr>"]
      server_page_not_found
        [where params = "Throws TypeError" and sp = "Returns None" and api = ex_error_api
           and err = TypeError]
    by simp
qed

section \<open>Properties of the editable cell\<close>

text \<open>
  The component on its own. Escape is handled by the text input only: a cell that edits
  through the input leaves edit mode, passes nothing to \<^verbatim>\<open>onUpdate\<close> and has its edit
  value reset to the cell's value; the select, date and boolean widgets are rendered
  without a key handler, so there Escape changes nothing.
\<close>

lemma escape_on_boolean_cell_keeps_editing:
  "cell_step \<lparr> cvalue = VBool True, ctype = TBoolean, coptions = Some [] \<rparr> True
      \<lparr> isEditing = True, editValue = VBool False \<rparr> (KeyDown ''Escape'')
   = (\<lparr> isEditing = True, editValue = VBool False \<rparr>, [])"
  by (simp add: cell_step_def handle_event_def EditableCell_def sync_effect_def)


text \<open>
  Given the type \<^verbatim>\<open>"boolean"\<close> and the value \<^verbatim>\<open>true\<close>, the component shows \<^verbatim>\<open>Yes\<close>, opens
  the two-option selector on \<^verbatim>\<open>"true"\<close> and commits the boolean that is picked.
\<close>

lemma boolean_cell_yes_no:
  assumes "ctype p = TBoolean" and "cvalue p = VBool True" and "\<not> isEditing s"
  shows "EditableCell p s = DisplayCell (Text ''Yes'')
       \<and> cell_step p resolves s Click = (\<lparr> isEditing = True, editValue = VBool True \<rparr>, [])
       \<and> EditableCell p (fst (cell_step p resolves s Click))
           = BooleanWidget ''true''
               [ \<lparr> opt_label = ''Yes'', opt_value = ''true'' \<rparr>,
                 \<lparr> opt_label = ''No'', opt_value = ''false'' \<rparr> ]
       \<and> cell_step p resolves (fst (cell_step p resolves s Click)) (ValueChange sel)
           = (\<lparr> isEditing = False, editValue = VBool True \<rparr>, [VBool (sel = ''true'')])"
  using assms
  by (simp add: cell_step_def handle_event_def EditableCell_def sync_effect_def
        handleStartEdit_def display_value_def Let_def)

section \<open>The cells of the table\<close>




text \<open>
  Claim C7. A cell of a column inferred boolean, with the value \<^verbatim>\<open>true\<close>, is to show
  \<^verbatim>\<open>Yes\<close> and to edit through the two-option selector. After a first batch whose record
  has \<^verbatim>\<open>true\<close> in one field, the captured column array holds \<^verbatim>\<open>"boolean"\<close> for that
  column, but the table hands the cell the type \<^verbatim>\<open>"text"\<close>: in display mode the cell
  holds the raw value, not \<^verbatim>\<open>Yes\<close>, and a click opens the text input, not the selector.
\<close>

theorem boolean_column_rendered_as_text:
  "map col_type (cl_columns (fst (snd (loadResources_end (\<lambda>s. False) ex_closure False
        (Returns ex_bool_response) ex_loading_state))))
     = [TText, TText, TText, TText, TBoolean, TText]
   \<and> rendered_cells (ClientResourceTable ''crmOpportunity'' ''tok''
        (fst (loadResources_end (\<lambda>s. False) ex_closure False
           (Returns ex_bool_response) ex_loading_state)))
     = [[ex_empty_cell, ex_empty_cell, ex_empty_cell, ex_empty_cell, ex_true_cell,
         ex_empty_cell]]
   \<and> EditableCell ex_true_cell \<lparr> isEditing = False, editValue = VBool True \<rparr>
       = DisplayCell (Value (VBool True))
   \<and> EditableCell ex_true_cell
        (fst (cell_step ex_true_cell True \<lparr> isEditing = False, editValue = VBool True \<rparr> Click))
       = InputWidget ''text'' (VBool True)"
proof -
  have a: "map col_type (cl_columns (fst (snd (loadResources_end (\<lambda>s. False) ex_closure False
        (Returns ex_bool_response) ex_loading_state))))
     = [TText, TText, TText, TText, TBoolean, TText]"
    by (simp add: loadResources_end_def ex_closure_def new_closure_def ex_bool_response_def
          infer_columns_def infer_field_def infer_type_def crmOpportunity_def allColumns_def
          ex_row3_def get_own_def Let_def)
  have b: "rendered_cells (ClientResourceTable ''crmOpportunity'' ''tok''
        (fst (loadResources_end (\<lambda>s. False) ex_closure False
           (Returns ex_bool_response) ex_loading_state)))
     = [[ex_empty_cell, ex_empty_cell, ex_empty_cell, ex_empty_cell, ex_true_cell,
         ex_empty_cell]]"
    by (simp add: loadResources_end_def ex_closure_def new_closure_def ex_bool_response_def
          infer_columns_def infer_field_def infer_type_def crmOpportunity_def allColumns_def
          ex_row3_def get_own_def initial_state_def load_finally_def rendered_cells_def
          ClientResourceTable_def models_get_simps render_body_def render_cell_def Let_def
          ex_loading_state_def ex_empty_cell_def ex_true_cell_def)
  have c: "EditableCell ex_true_cell \<lparr> isEditing = False, editValue = VBool True \<rparr>
       = DisplayCell (Value (VBool True))"
    by (simp add: EditableCell_def display_value_def ex_true_cell_def)
  have d: "EditableCell ex_true_cell
        (fst (cell_step ex_true_cell True \<lparr> isEditing = False, editValue = VBool True \<rparr> Click))
       = InputWidget ''text'' (VBool True)"
    by (simp add: cell_step_def handle_event_def EditableCell_def sync_effect_def
          handleStartEdit_def display_value_def ex_true_cell_def)
  from a b c d show ?thesis by blast
qed

end
